theory Spec2Isabelle
  imports Complex_Main "HOL-Library.Product_Lexorder"
begin

section \<open>Data model (database.py, models.py)\<close>

text \<open>
  The tables of \<^verbatim>\<open>init_db\<close>. A timestamp column holds text of one fixed format
  (\<^verbatim>\<open>CURRENT_TIMESTAMP\<close>), whose text order is the order of the instants; it is
  modelled as the instant, a natural number read from a clock that every writing
  operation receives as the argument \<open>now\<close>. A nullable column is an option.
\<close>

type_synonym time = nat

record question =
  question_id :: nat
  user_id :: "nat option"
  username :: string
  message :: string
  status :: string
  category :: string
  timestamp :: time
  answered_at :: "time option"

record answer =
  answer_id :: nat
  answer_question_id :: nat
  answer_user_id :: "nat option"
  answer_username :: string
  answer_message :: string
  answer_timestamp :: time

text \<open>
  The database file: both tables in rowid order, and for each the largest id that
  \<^verbatim>\<open>AUTOINCREMENT\<close> has handed out so far (SQLite's \<^verbatim>\<open>sqlite_sequence\<close>).
\<close>

record store =
  questions :: "question list"
  answers :: "answer list"
  question_seq :: nat
  answer_seq :: nat

definition init_db :: store where
  "init_db = \<lparr>questions = [], answers = [], question_seq = 0, answer_seq = 0\<rparr>"

datatype error =
  ValidationError      \<comment> \<open>HTTP 422, raised by the request models of models.py\<close>
| NotFoundError        \<comment> \<open>\<^verbatim>\<open>HTTPException(status_code=404)\<close>\<close>
| InternalServerError  \<comment> \<open>\<^verbatim>\<open>HTTPException(status_code=500)\<close>\<close>
| ValueError           \<comment> \<open>Python's \<^verbatim>\<open>list.remove\<close> on an absent element\<close>
| OverflowError        \<comment> \<open>sqlite3, binding a Python int that does not fit an \<^verbatim>\<open>INTEGER\<close>\<close>

section \<open>QuestionDB and AnswerDB (database.py)\<close>

text \<open>
  The static methods of the classes \<^verbatim>\<open>QuestionDB\<close> and \<^verbatim>\<open>AnswerDB\<close> carry the class
  name as a prefix; the request handlers of main.py, some of which have the same
  names, carry none.
\<close>

text \<open>
  \<^verbatim>\<open>INSERT INTO questions (user_id, username, message, category)\<close>: the columns left out
  take their defaults, \<^verbatim>\<open>status = 'Pending'\<close>, \<^verbatim>\<open>timestamp = CURRENT_TIMESTAMP\<close> and
  \<^verbatim>\<open>answered_at = NULL\<close>. The function returns \<^verbatim>\<open>cursor.lastrowid\<close>.
\<close>

definition QuestionDB_create_question ::
  "time \<Rightarrow> store \<Rightarrow> nat option \<Rightarrow> string \<Rightarrow> string \<Rightarrow> string \<Rightarrow> nat \<times> store" where
  "QuestionDB_create_question now s uid uname msg cat =
     (let qid = Suc (question_seq s);
          q = \<lparr>question_id = qid, user_id = uid, username = uname, message = msg,
               status = ''Pending'', category = cat, timestamp = now,
               answered_at = None\<rparr>
      in (qid, s\<lparr>questions := questions s @ [q], question_seq := qid\<rparr>))"

text \<open>
  A row of a question query: the columns of the question, and the column
  \<^verbatim>\<open>answer_count\<close> when the query selects it (\<open>None\<close>: the key is not in the dict).
\<close>

type_synonym question_row = "question \<times> nat option"

text \<open>
  \<^verbatim>\<open>LEFT JOIN answers a ON q.question_id = a.question_id GROUP BY q.question_id\<close>
  with \<^verbatim>\<open>COUNT(a.answer_id)\<close>: \<^verbatim>\<open>question_id\<close> is the primary key, so each group is
  one question with the answers that carry its id.
\<close>

definition count_answers :: "store \<Rightarrow> nat \<Rightarrow> nat" where
  "count_answers s qid = length (filter (\<lambda>a. answer_question_id a = qid) (answers s))"

text \<open>
  \<^verbatim>\<open>ORDER BY CASE q.status WHEN 'Escalated' THEN 0 ELSE 1 END, q.timestamp DESC\<close>:
  the sort key of a row, compared lexicographically; descending time is ascending
  negated time. Rows with equal keys keep their table order.
\<close>

definition status_rank :: "question \<Rightarrow> nat" where
  "status_rank q = (if status q = ''Escalated'' then 0 else 1)"

definition triage_key :: "question_row \<Rightarrow> nat \<times> int" where
  "triage_key r = (status_rank (fst r), - int (timestamp (fst r)))"

definition newest_first_key :: "question_row \<Rightarrow> int" where
  "newest_first_key r = - int (timestamp (fst r))"

definition QuestionDB_get_all_questions :: "store \<Rightarrow> question_row list" where
  "QuestionDB_get_all_questions s =
     sort_key triage_key
       (map (\<lambda>q. (q, Some (count_answers s (question_id q)))) (questions s))"

text \<open>
  \<^verbatim>\<open>SELECT * FROM questions WHERE question_id = ?\<close> and \<^verbatim>\<open>fetchone\<close>, once the
  parameter is bound.
\<close>

definition select_question_by_id :: "store \<Rightarrow> nat \<Rightarrow> question option" where
  "select_question_by_id s qid = find (\<lambda>q. question_id q = qid) (questions s)"

text \<open>
  An id that comes with a request is a Python \<^verbatim>\<open>int\<close> of any size
  (\<^verbatim>\<open>question_id: int\<close>), and an SQLite \<^verbatim>\<open>INTEGER\<close> is a signed 64-bit number:
  binding an id of \<open>2^63\<close> or more raises \<^verbatim>\<open>OverflowError\<close> before any row is
  read. Ids are natural numbers here; a negative id that fits names no row, as
  an unknown id does.
\<close>

definition sqlite_integer :: "nat \<Rightarrow> bool" where
  "sqlite_integer n \<longleftrightarrow> int n < 2 ^ 63"

definition QuestionDB_get_question_by_id :: "store \<Rightarrow> nat \<Rightarrow> error + question option" where
  "QuestionDB_get_question_by_id s qid =
     (if sqlite_integer qid then Inr (select_question_by_id s qid) else Inl OverflowError)"

text \<open>
  \<^verbatim>\<open>UPDATE questions SET status = ?, answered_at = ? WHERE question_id = ?\<close>, with
  \<^verbatim>\<open>answered_at = datetime.now().isoformat() if status == "Answered" else None\<close>.
  The function takes any string and always returns \<^verbatim>\<open>True\<close>.
\<close>

definition QuestionDB_update_question_status :: "time \<Rightarrow> store \<Rightarrow> nat \<Rightarrow> string \<Rightarrow> bool \<times> store" where
  "QuestionDB_update_question_status now s qid st =
     (let stamp = (if st = ''Answered'' then Some now else None)
      in (True,
          s\<lparr>questions :=
              map (\<lambda>q. if question_id q = qid then q\<lparr>status := st, answered_at := stamp\<rparr> else q)
                  (questions s)\<rparr>))"

text \<open>
  \<^verbatim>\<open>SELECT * FROM questions WHERE category = ? ORDER BY timestamp DESC\<close>: no join,
  no \<^verbatim>\<open>answer_count\<close> column, no status in the order.
\<close>

definition QuestionDB_get_questions_by_category :: "store \<Rightarrow> string \<Rightarrow> question_row list" where
  "QuestionDB_get_questions_by_category s cat =
     sort_key newest_first_key
       (map (\<lambda>q. (q, None)) (filter (\<lambda>q. category q = cat) (questions s)))"

definition AnswerDB_create_answer :: "time \<Rightarrow> store \<Rightarrow> nat \<Rightarrow> nat option \<Rightarrow> string \<Rightarrow> string \<Rightarrow> nat \<times> store" where
  "AnswerDB_create_answer now s qid uid uname msg =
     (let aid = Suc (answer_seq s);
          a = \<lparr>answer_id = aid, answer_question_id = qid, answer_user_id = uid,
               answer_username = uname, answer_message = msg, answer_timestamp = now\<rparr>
      in (aid, s\<lparr>answers := answers s @ [a], answer_seq := aid\<rparr>))"

text \<open>\<^verbatim>\<open>SELECT * FROM answers WHERE question_id = ? ORDER BY timestamp ASC\<close>.\<close>

definition AnswerDB_get_answers_by_question :: "store \<Rightarrow> nat \<Rightarrow> answer list" where
  "AnswerDB_get_answers_by_question s qid =
     sort_key answer_timestamp (filter (\<lambda>a. answer_question_id a = qid) (answers s))"

section \<open>Request models (models.py)\<close>

text \<open>
  A pydantic model is built from the request body before the handler runs; a body
  that breaks a \<^verbatim>\<open>Field\<close> constraint never reaches the handler and the request is
  answered with 422. Lengths count the characters of the string.
\<close>

record QuestionCreate =
  qc_message :: string
  qc_username :: string
  qc_category :: string

definition QuestionCreate_valid :: "QuestionCreate \<Rightarrow> bool" where
  "QuestionCreate_valid qd \<longleftrightarrow> 1 \<le> length (qc_message qd) \<and> length (qc_message qd) \<le> 1000"

text \<open>\<^verbatim>\<open>status: str = Field(..., pattern="^(Pending|Escalated|Answered)$")\<close>\<close>

definition QuestionUpdate :: "string \<Rightarrow> error + string" where
  "QuestionUpdate st =
     (if st = ''Pending'' \<or> st = ''Escalated'' \<or> st = ''Answered'' then Inr st
      else Inl ValidationError)"

record AnswerCreate =
  ac_question_id :: nat
  ac_message :: string
  ac_username :: string

definition AnswerCreate_valid :: "AnswerCreate \<Rightarrow> bool" where
  "AnswerCreate_valid ad \<longleftrightarrow> 1 \<le> length (ac_message ad) \<and> length (ac_message ad) \<le> 2000"

text \<open>
  The response model \<^verbatim>\<open>Question\<close> has \<^verbatim>\<open>answer_count: int = 0\<close>: a row without the
  key is sent with the default.
\<close>

type_synonym Question = "question \<times> nat"

definition Question :: "question_row \<Rightarrow> Question" where
  "Question r = (fst r, (case snd r of None \<Rightarrow> 0 | Some n \<Rightarrow> n))"

definition answer_count :: "Question \<Rightarrow> nat" where
  "answer_count r = snd r"

section \<open>ConnectionManager (main.py)\<close>

text \<open>
  A websocket is known by its identity. What a \<^verbatim>\<open>send_json\<close> does is given by the
  transport: it returns, or it raises an \<^verbatim>\<open>Exception\<close> (a closed connection).
  The handlers run one at a time here: a publish is not interleaved with a
  \<^verbatim>\<open>connect\<close> or \<^verbatim>\<open>disconnect\<close> of another task.
\<close>

type_synonym websocket = nat

datatype payload = QuestionData "question option" | AnswerData "answer option"

datatype event = Event string payload

datatype send_outcome = SendOk | SendRaises

type_synonym transport = "websocket \<Rightarrow> event \<Rightarrow> send_outcome"

datatype delivery =
  Delivered websocket event   \<comment> \<open>\<^verbatim>\<open>send_json\<close> returned\<close>
| LoggedError websocket event \<comment> \<open>\<^verbatim>\<open>send_json\<close> raised, \<^verbatim>\<open>logger.error\<close> was called\<close>

record ConnectionManager =
  active_connections :: "websocket list"

definition connect :: "ConnectionManager \<Rightarrow> websocket \<Rightarrow> ConnectionManager" where
  "connect m ws = m\<lparr>active_connections := active_connections m @ [ws]\<rparr>"

text \<open>
  \<^verbatim>\<open>self.active_connections.remove(websocket)\<close>: \<^verbatim>\<open>list.remove\<close> deletes the first
  occurrence and raises \<^verbatim>\<open>ValueError\<close> when there is none.
\<close>

definition disconnect :: "ConnectionManager \<Rightarrow> websocket \<Rightarrow> (error + unit) \<times> ConnectionManager" where
  "disconnect m ws =
     (if ws \<in> set (active_connections m)
      then (Inr (), m\<lparr>active_connections := remove1 ws (active_connections m)\<rparr>)
      else (Inl ValueError, m))"

text \<open>
  The loop of \<^verbatim>\<open>broadcast\<close>: each connection in list order, the exception of a send
  caught and logged, the loop going on. The manager is threaded through the loop
  as the loop has it: no statement of the body writes to it.
\<close>

fun broadcast_loop ::
  "transport \<Rightarrow> event \<Rightarrow> websocket list \<Rightarrow> ConnectionManager \<Rightarrow> delivery list
     \<Rightarrow> (error + unit) \<times> ConnectionManager \<times> delivery list" where
  "broadcast_loop tr msg [] m out = (Inr (), m, out)"
| "broadcast_loop tr msg (c # cs) m out =
     (case tr c msg of
        SendOk \<Rightarrow> broadcast_loop tr msg cs m (out @ [Delivered c msg])
      | SendRaises \<Rightarrow> broadcast_loop tr msg cs m (out @ [LoggedError c msg]))"

definition broadcast ::
  "transport \<Rightarrow> ConnectionManager \<Rightarrow> event
     \<Rightarrow> (error + unit) \<times> ConnectionManager \<times> delivery list" where
  "broadcast tr m msg = broadcast_loop tr msg (active_connections m) m []"

text \<open>Several publishes one after the other, each on the manager the last one left.\<close>

fun publish_all ::
  "transport \<Rightarrow> ConnectionManager \<Rightarrow> event list \<Rightarrow> ConnectionManager \<times> delivery list" where
  "publish_all tr m [] = (m, [])"
| "publish_all tr m (ev # evs) =
     (case broadcast tr m ev of
        (r, m', out) \<Rightarrow> (case publish_all tr m' evs of (m'', out') \<Rightarrow> (m'', out @ out')))"

text \<open>
  \<^verbatim>\<open>websocket_endpoint\<close>: the connection is registered, the receive loop runs until
  it raises, and either \<^verbatim>\<open>except\<close> branch deregisters the connection once.
\<close>

definition websocket_endpoint :: "ConnectionManager \<Rightarrow> websocket \<Rightarrow> (error + unit) \<times> ConnectionManager" where
  "websocket_endpoint m ws = disconnect (connect m ws) ws"

section \<open>Request handlers (main.py)\<close>

record app =
  db :: store
  manager :: ConnectionManager

text \<open>
  The token payload that \<^verbatim>\<open>get_current_user\<close> hands to a handler (auth.py is not
  part of the sources; main.py builds the payload with the keys \<^verbatim>\<open>sub\<close> and
  \<^verbatim>\<open>user_id\<close>). \<open>None\<close> is a guest.
\<close>

record claims =
  sub :: string
  claims_user_id :: "nat option"

text \<open>
  \<^verbatim>\<open>POST /api/questions\<close>. Any exception in the body is turned into a 500. The row
  that is read back is the one just inserted: its id is the \<^verbatim>\<open>lastrowid\<close> that
  SQLite handed out, not a number of the request, and binding it does not
  overflow.
\<close>

definition create_question ::
  "transport \<Rightarrow> time \<Rightarrow> app \<Rightarrow> QuestionCreate \<Rightarrow> claims option
     \<Rightarrow> (error + nat \<times> question option) \<times> app \<times> delivery list" where
  "create_question tr now a question_data current_user =
     (let uid = (case current_user of Some c \<Rightarrow> claims_user_id c | None \<Rightarrow> None);
          uname = (case current_user of Some c \<Rightarrow> sub c | None \<Rightarrow> qc_username question_data)
      in case QuestionDB_create_question now (db a) uid uname
                (qc_message question_data) (qc_category question_data) of
           (qid, db') \<Rightarrow>
             (let q = select_question_by_id db' qid
              in case broadcast tr (manager a) (Event ''new_question'' (QuestionData q)) of
                   (Inr u, m', out) \<Rightarrow> (Inr (qid, q), \<lparr>db = db', manager = m'\<rparr>, out)
                 | (Inl e, m', out) \<Rightarrow> (Inl InternalServerError, \<lparr>db = db', manager = m'\<rparr>, out)))"

text \<open>The request: the body is checked against \<^verbatim>\<open>QuestionCreate\<close>, then handled.\<close>

definition post_question ::
  "transport \<Rightarrow> time \<Rightarrow> app \<Rightarrow> QuestionCreate \<Rightarrow> claims option
     \<Rightarrow> (error + nat \<times> question option) \<times> app \<times> delivery list" where
  "post_question tr now a body current_user =
     (if QuestionCreate_valid body then create_question tr now a body current_user
      else (Inl ValidationError, a, []))"

text \<open>
  \<^verbatim>\<open>GET /api/questions\<close>: \<^verbatim>\<open>if category and category != "All"\<close>; the rows are sent
  through the response model \<^verbatim>\<open>List[Question]\<close>.
\<close>

definition get_questions :: "app \<Rightarrow> string option \<Rightarrow> Question list" where
  "get_questions a cat =
     map Question
       (case cat of
          None \<Rightarrow> QuestionDB_get_all_questions (db a)
        | Some c \<Rightarrow>
            if c \<noteq> [] \<and> c \<noteq> ''All'' then QuestionDB_get_questions_by_category (db a) c
            else QuestionDB_get_all_questions (db a))"

text \<open>
  \<^verbatim>\<open>PATCH /api/questions/{question_id}\<close>, the handler: it receives a
  \<^verbatim>\<open>QuestionUpdate\<close> that passed its check. The dependency
  \<^verbatim>\<open>get_current_admin_user\<close> (auth.py) has been resolved when the handler and the
  check of the body run; the handler does not read its result. The handler has
  no \<^verbatim>\<open>try\<close>: an exception of a lookup leaves it as it is.
\<close>

definition update_question_status ::
  "transport \<Rightarrow> time \<Rightarrow> app \<Rightarrow> nat \<Rightarrow> string
     \<Rightarrow> (error + question option) \<times> app \<times> delivery list" where
  "update_question_status tr now a qid update_data =
     (case QuestionDB_get_question_by_id (db a) qid of
        Inl e \<Rightarrow> (Inl e, a, [])
      | Inr None \<Rightarrow> (Inl NotFoundError, a, [])
      | Inr (Some question) \<Rightarrow>
          (case QuestionDB_update_question_status now (db a) qid update_data of
             (ok, db') \<Rightarrow>
               (case QuestionDB_get_question_by_id db' qid of
                  Inl e \<Rightarrow> (Inl e, \<lparr>db = db', manager = manager a\<rparr>, [])
                | Inr updated_question \<Rightarrow>
                    (case broadcast tr (manager a)
                            (Event ''question_updated'' (QuestionData updated_question)) of
                       (Inr u, m', out) \<Rightarrow> (Inr updated_question, \<lparr>db = db', manager = m'\<rparr>, out)
                     | (Inl e, m', out) \<Rightarrow> (Inl e, \<lparr>db = db', manager = m'\<rparr>, out)))))"

text \<open>The request: the body is checked against \<^verbatim>\<open>QuestionUpdate\<close>, then handled.\<close>

definition patch_question ::
  "transport \<Rightarrow> time \<Rightarrow> app \<Rightarrow> nat \<Rightarrow> string
     \<Rightarrow> (error + question option) \<times> app \<times> delivery list" where
  "patch_question tr now a qid raw_status =
     (case QuestionUpdate raw_status of
        Inl e \<Rightarrow> (Inl e, a, [])
      | Inr update_data \<Rightarrow> update_question_status tr now a qid update_data)"

text \<open>
  \<^verbatim>\<open>POST /api/answers\<close>, the handler. The 404 is re-raised as it is; any other
  exception, the \<^verbatim>\<open>OverflowError\<close> of the lookup among them, is turned into a 500.
  The two statements after the lookup bind the id that the lookup has bound.
\<close>

definition create_answer ::
  "transport \<Rightarrow> time \<Rightarrow> app \<Rightarrow> AnswerCreate \<Rightarrow> claims option
     \<Rightarrow> (error + nat \<times> answer option) \<times> app \<times> delivery list" where
  "create_answer tr now a answer_data current_user =
     (case QuestionDB_get_question_by_id (db a) (ac_question_id answer_data) of
        Inl e \<Rightarrow> (Inl InternalServerError, a, [])
      | Inr None \<Rightarrow> (Inl NotFoundError, a, [])
      | Inr (Some question) \<Rightarrow>
          (let uid = (case current_user of Some c \<Rightarrow> claims_user_id c | None \<Rightarrow> None);
               uname = (case current_user of Some c \<Rightarrow> sub c | None \<Rightarrow> ac_username answer_data)
           in case AnswerDB_create_answer now (db a) (ac_question_id answer_data) uid uname
                     (ac_message answer_data) of
                (aid, db') \<Rightarrow>
                  (let created_answer =
                         find (\<lambda>x. answer_id x = aid)
                           (AnswerDB_get_answers_by_question db' (ac_question_id answer_data))
                   in case broadcast tr (manager a) (Event ''new_answer'' (AnswerData created_answer)) of
                        (Inr u, m', out) \<Rightarrow>
                          (Inr (aid, created_answer), \<lparr>db = db', manager = m'\<rparr>, out)
                      | (Inl e, m', out) \<Rightarrow>
                          (Inl InternalServerError, \<lparr>db = db', manager = m'\<rparr>, out))))"

definition post_answer ::
  "transport \<Rightarrow> time \<Rightarrow> app \<Rightarrow> AnswerCreate \<Rightarrow> claims option
     \<Rightarrow> (error + nat \<times> answer option) \<times> app \<times> delivery list" where
  "post_answer tr now a body current_user =
     (if AnswerCreate_valid body then create_answer tr now a body current_user
      else (Inl ValidationError, a, []))"

text \<open>\<^verbatim>\<open>GET /api/questions/{question_id}/answers\<close>.\<close>

definition get_answers :: "app \<Rightarrow> nat \<Rightarrow> error + answer list" where
  "get_answers a qid =
     (case QuestionDB_get_question_by_id (db a) qid of
        Inl e \<Rightarrow> Inl InternalServerError
      | Inr None \<Rightarrow> Inl NotFoundError
      | Inr (Some question) \<Rightarrow> Inr (AnswerDB_get_answers_by_question (db a) qid))"

section \<open>RAGService (rag_service.py)\<close>

text \<open>
  The dict that the service returns. The confidence is a float in the source and a
  real number here; \<^verbatim>\<open>round(x, 2)\<close> is rounding to the nearest hundredth.
  \<^verbatim>\<open>random.uniform(a, b)\<close> is \<^verbatim>\<open>a + (b - a) * random()\<close>, and the value \<open>u\<close> that
  \<^verbatim>\<open>random()\<close> draws, which lies in \<open>[0, 1)\<close>, is an argument of the model.
\<close>

record rag_answer =
  rag_question :: string
  suggested_answer :: string
  confidence :: real
  sources :: "string list"

text \<open>What \<^verbatim>\<open>self.chain.ainvoke\<close> does: it returns the text or raises an \<^verbatim>\<open>Exception\<close>.\<close>

datatype chain_outcome = Completion string | ChainRaises

type_synonym chain = "string \<Rightarrow> chain_outcome"

record RAGService =
  llm :: "chain option"

definition uniform :: "real \<Rightarrow> real \<Rightarrow> real \<Rightarrow> real" where
  "uniform a b u = a + (b - a) * u"

definition round2 :: "real \<Rightarrow> real" where
  "round2 x = real_of_int (round (x * 100)) / 100"

text \<open>
  \<^verbatim>\<open>str.lower\<close> on the letters A to Z; no other character lowers to a letter of the
  five keywords.
\<close>

definition lower_char :: "char \<Rightarrow> char" where
  "lower_char c =
     (let n = (of_char c :: nat) in if 65 \<le> n \<and> n \<le> 90 then char_of (n + 32) else c)"

definition lower :: "string \<Rightarrow> string" where
  "lower s = map lower_char s"

fun startswith :: "string \<Rightarrow> string \<Rightarrow> bool" where
  "startswith s [] = True"
| "startswith [] (k # ks) = False"
| "startswith (c # cs) (k # ks) = (c = k \<and> startswith cs ks)"

text \<open>The dict \<^verbatim>\<open>mock_responses\<close>, in the order in which its items are visited.\<close>

definition mock_responses :: "(string \<times> string) list" where
  "mock_responses =
     [(''how'', ''To accomplish this, you would typically follow these steps: 1) Research the requirements, 2) Plan your approach, 3) Implement the solution, 4) Test thoroughly. This is a general framework that can be adapted to your specific needs.''),
      (''what'', ''This is a great question! Based on common knowledge, the answer involves understanding the core concepts and applying them to your specific context. I'd recommend researching more about the specific topic you're asking about.''),
      (''why'', ''There are several reasons for this: 1) Historical context, 2) Technical requirements, 3) Best practices in the field. Understanding these factors will help clarify the reasoning behind it.''),
      (''when'', ''The timing for this depends on several factors including your specific requirements and constraints. Generally, it's best to consider the context and plan accordingly.''),
      (''where'', ''The location or placement depends on your specific use case. Common approaches include considering accessibility, performance, and maintainability factors.'')]"

definition default_response :: string where
  "default_response = ''Thank you for your question! This is an interesting topic. I suggest researching authoritative sources or consulting with domain experts for the most accurate and up-to-date information. If you'd like a more specific answer, please provide additional context or details.''"

definition get_mock_answer :: "real \<Rightarrow> string \<Rightarrow> rag_answer" where
  "get_mock_answer u question =
     (let question_lower = lower question
      in case find (\<lambda>(keyword, response). startswith question_lower keyword) mock_responses of
           Some (keyword, response) \<Rightarrow>
             \<lparr>rag_question = question, suggested_answer = response,
              confidence = round2 (uniform 0.65 0.85 u),
              sources = [''Mock RAG System'', ''Demo Knowledge Base'']\<rparr>
         | None \<Rightarrow>
             \<lparr>rag_question = question, suggested_answer = default_response,
              confidence = 0.60,
              sources = [''Mock RAG System'', ''General Knowledge Base'']\<rparr>)"

definition get_real_answer :: "chain \<Rightarrow> real \<Rightarrow> string \<Rightarrow> rag_answer" where
  "get_real_answer ch u question =
     (case ch question of
        Completion txt \<Rightarrow>
          \<lparr>rag_question = question, suggested_answer = txt, confidence = 0.85,
           sources = [''OpenAI GPT-3.5'', ''Langchain RAG'']\<rparr>
      | ChainRaises \<Rightarrow> get_mock_answer u question)"

definition get_suggested_answer :: "RAGService \<Rightarrow> real \<Rightarrow> string \<Rightarrow> rag_answer" where
  "get_suggested_answer svc u question =
     (case llm svc of
        Some ch \<Rightarrow> get_real_answer ch u question
      | None \<Rightarrow> get_mock_answer u question)"

section \<open>Runs of the service, invariants and sample states\<close>

text \<open>
  A writing request with the clock value it sees, and a run of such requests, each
  handled on the state the last one left. The events sent on the way are dropped.
\<close>

datatype request =
  PostQuestion time QuestionCreate "claims option"
| PatchQuestion time nat string
| PostAnswer time AnswerCreate "claims option"

fun handle :: "transport \<Rightarrow> app \<Rightarrow> request \<Rightarrow> app" where
  "handle tr a (PostQuestion now body cu) = fst (snd (post_question tr now a body cu))"
| "handle tr a (PatchQuestion now qid raw_status) = fst (snd (patch_question tr now a qid raw_status))"
| "handle tr a (PostAnswer now body cu) = fst (snd (post_answer tr now a body cu))"

fun run_requests :: "transport \<Rightarrow> app \<Rightarrow> request list \<Rightarrow> app" where
  "run_requests tr a [] = a"
| "run_requests tr a (r # rs) = run_requests tr (handle tr a r) rs"

text \<open>The answered timestamp of a question is set exactly when its status is Answered.\<close>

definition answered_inv :: "store \<Rightarrow> bool" where
  "answered_inv s \<longleftrightarrow>
     (\<forall>q \<in> set (questions s). (answered_at q \<noteq> None) = (status q = ''Answered''))"

text \<open>
  No question and no answer names a question id that has not been handed out yet.
\<close>

definition store_ok :: "store \<Rightarrow> bool" where
  "store_ok s \<longleftrightarrow>
     (\<forall>q \<in> set (questions s). question_id q \<le> question_seq s) \<and>
     (\<forall>x \<in> set (answers s). answer_question_id x \<le> question_seq s)"

definition fresh_app :: app where
  "fresh_app = \<lparr>db = init_db, manager = \<lparr>active_connections = []\<rparr>\<rparr>"

definition all_ok :: transport where
  "all_ok ws ev = SendOk"

definition ask :: "string \<Rightarrow> QuestionCreate" where
  "ask msg = \<lparr>qc_message = msg, qc_username = ''Guest'', qc_category = ''General''\<rparr>"

definition reply :: "nat \<Rightarrow> string \<Rightarrow> AnswerCreate" where
  "reply qid msg = \<lparr>ac_question_id = qid, ac_message = msg, ac_username = ''Guest''\<rparr>"

text \<open>
  Two questions of the category General, asked at the times 1 and 2; the older one
  is escalated at time 3.
\<close>

definition triage_app :: app where
  "triage_app =
     run_requests all_ok fresh_app
       [PostQuestion 1 (ask ''first'') None, PostQuestion 2 (ask ''second'') None,
        PatchQuestion 3 1 ''Escalated'']"

text \<open>One question of the category General, asked at time 1 and answered at time 2.\<close>

definition answered_app :: app where
  "answered_app =
     run_requests all_ok fresh_app
       [PostQuestion 1 (ask ''first'') None, PostAnswer 2 (reply 1 ''an answer'') None]"

text \<open>Three observers, the second with a closed connection.\<close>

definition three_observers :: ConnectionManager where
  "three_observers = \<lparr>active_connections = [1, 2, 3]\<rparr>"

definition second_closed :: transport where
  "second_closed ws ev = (if ws = 2 then SendRaises else SendOk)"

definition ping :: event where
  "ping = Event ''new_question'' (QuestionData None)"

text \<open>The sample state with the two questions, watched by the three observers.\<close>

definition watched_app :: app where
  "watched_app = \<lparr>db = db triage_app, manager = three_observers\<rparr>"

definition one_observer :: ConnectionManager where
  "one_observer = \<lparr>active_connections = [1]\<rparr>"

definition failing_chain :: chain where
  "failing_chain question = ChainRaises"

text \<open>A question is asked at time 1 and marked as answered at time 2.\<close>

definition lifecycle :: "request list" where
  "lifecycle = [PostQuestion 1 (ask ''first'') None, PatchQuestion 2 1 ''Answered'']"

definition one_question :: store where
  "one_question = snd (QuestionDB_create_question 1 init_db None ''Guest'' ''first'' ''General'')"

text \<open>What one pass of the loop of \<^verbatim>\<open>broadcast\<close> leaves in the trace.\<close>

definition attempt :: "transport \<Rightarrow> event \<Rightarrow> websocket \<Rightarrow> delivery" where
  "attempt tr msg c =
     (case tr c msg of SendOk \<Rightarrow> Delivered c msg | SendRaises \<Rightarrow> LoggedError c msg)"

section \<open>The broadcaster\<close>

lemma broadcast_loop_eq:
  "broadcast_loop tr msg cs m out = (Inr (), m, out @ map (attempt tr msg) cs)"
  by (induction cs arbitrary: out) (auto simp: attempt_def split: send_outcome.splits)

lemma broadcast_eq:
  "broadcast tr m msg = (Inr (), m, map (attempt tr msg) (active_connections m))"
  by (simp add: broadcast_def broadcast_loop_eq)

lemma publish_all_eq:
  "publish_all tr m evs =
     (m, concat (map (\<lambda>ev. map (attempt tr ev) (active_connections m)) evs))"
  by (induction evs) (simp_all add: broadcast_eq)

text \<open>
  C4, as the code has it. A publish returns normally whatever the sends do; every
  registered observer whose send succeeds gets the event, wherever the failing
  observers stand in the list; a failed send is logged, and the observer it failed
  for is still registered when the publish returns.
\<close>

theorem broadcast_isolates_failure:
  "fst (broadcast tr m ev) = Inr () \<and>
   (\<forall>c \<in> set (active_connections m).
      (tr c ev = SendOk \<longrightarrow> Delivered c ev \<in> set (snd (snd (broadcast tr m ev)))) \<and>
      (tr c ev = SendRaises \<longrightarrow>
         LoggedError c ev \<in> set (snd (snd (broadcast tr m ev))) \<and>
         c \<in> set (active_connections (fst (snd (broadcast tr m ev))))))"
  by (auto simp: broadcast_eq attempt_def image_iff split: send_outcome.splits intro!: bexI)

theorem broadcast_isolates_failure_witness:
  "Delivered 1 ping \<in> set (snd (snd (broadcast second_closed three_observers ping))) \<and>
   Delivered 3 ping \<in> set (snd (snd (broadcast second_closed three_observers ping))) \<and>
   LoggedError 2 ping \<in> set (snd (snd (broadcast second_closed three_observers ping))) \<and>
   fst (broadcast second_closed three_observers ping) = Inr ()"
  using broadcast_isolates_failure [of second_closed three_observers ping]
  by (simp add: three_observers_def second_closed_def)

text \<open>
  The claim as written asks for the failed observer to be deregistered. With three
  observers of which the second has a closed connection, the second is still in
  the registry after the publish.
\<close>

theorem broadcast_keeps_failed_observer:
  "second_closed 2 ping = SendRaises \<and>
   2 \<in> set (active_connections (fst (snd (broadcast second_closed three_observers ping))))"
  by (simp add: broadcast_def three_observers_def second_closed_def)

text \<open>
  C10. A publish leaves the registry as it found it, and so does any number of
  publishes in a row; an observer whose sends fail is tried again, and its failure
  logged again, for every event of the row.
\<close>

theorem broadcast_registry_unchanged:
  "fst (snd (broadcast tr m ev)) = m \<and>
   fst (publish_all tr m evs) = m \<and>
   (\<forall>ev \<in> set evs. \<forall>c \<in> set (active_connections m).
      tr c ev = SendRaises \<longrightarrow> LoggedError c ev \<in> set (snd (publish_all tr m evs)))"
  by (auto simp: broadcast_eq publish_all_eq attempt_def image_iff split: send_outcome.splits intro!: bexI)

theorem broadcast_registry_unchanged_witness:
  "fst (snd (broadcast second_closed three_observers ping)) = three_observers \<and>
   fst (publish_all second_closed three_observers [ping, ping]) = three_observers \<and>
   LoggedError 2 ping \<in> set (snd (publish_all second_closed three_observers [ping, ping]))"
  using broadcast_registry_unchanged [of second_closed three_observers ping "[ping, ping]"]
  by (simp add: three_observers_def second_closed_def)

text \<open>
  C5, as the code has it. \<^verbatim>\<open>disconnect\<close> succeeds exactly when the observer is in
  the registry, and then removes its first registration; for an observer that is
  not there it raises \<^verbatim>\<open>ValueError\<close> and leaves the registry alone. So the second
  of two calls for an observer that was registered once fails. The websocket
  endpoint calls it once for the connection it has just registered, where it
  succeeds.
\<close>

theorem disconnect_cases:
  "(ws \<in> set (active_connections m) \<longrightarrow>
      disconnect m ws = (Inr (), m\<lparr>active_connections := remove1 ws (active_connections m)\<rparr>)) \<and>
   (ws \<notin> set (active_connections m) \<longrightarrow> disconnect m ws = (Inl ValueError, m)) \<and>
   (distinct (active_connections m) \<longrightarrow>
      fst (disconnect (snd (disconnect m ws)) ws) = Inl ValueError) \<and>
   fst (websocket_endpoint m ws) = Inr ()"
  by (auto simp: disconnect_def websocket_endpoint_def connect_def)

theorem disconnect_cases_witness:
  "1 \<in> set (active_connections one_observer) \<and>
   2 \<notin> set (active_connections one_observer) \<and>
   distinct (active_connections one_observer) \<and>
   disconnect one_observer 1 = (Inr (), \<lparr>active_connections = []\<rparr>) \<and>
   disconnect one_observer 2 = (Inl ValueError, one_observer) \<and>
   fst (disconnect (snd (disconnect one_observer 1)) 1) = Inl ValueError"
proof -
  have h1: "1 \<in> set (active_connections one_observer)"
    and h2: "2 \<notin> set (active_connections one_observer)"
    and h3: "distinct (active_connections one_observer)"
    by (simp_all add: one_observer_def)
  from disconnect_cases [of 1 one_observer] h1
  have a: "disconnect one_observer 1 =
      (Inr (), one_observer\<lparr>active_connections := remove1 1 (active_connections one_observer)\<rparr>)"
    by blast
  from disconnect_cases [of 2 one_observer] h2
  have b: "disconnect one_observer 2 = (Inl ValueError, one_observer)"
    by blast
  from disconnect_cases [of 1 one_observer] h3
  have c: "fst (disconnect (snd (disconnect one_observer 1)) 1) = Inl ValueError"
    by blast
  have d: "one_observer\<lparr>active_connections := remove1 1 (active_connections one_observer)\<rparr>
      = \<lparr>active_connections = []\<rparr>"
    by (simp add: one_observer_def)
  show ?thesis using h1 h2 h3 a b c d by simp
qed

text \<open>
  The claim as written says that the call never fails and that a second call
  changes nothing. With one observer registered, the first call succeeds and the
  second raises.
\<close>

theorem disconnect_twice_raises:
  "fst (disconnect one_observer 1) = Inr () \<and>
   fst (disconnect (snd (disconnect one_observer 1)) 1) = Inl ValueError"
  by (simp add: disconnect_def one_observer_def)

section \<open>The handlers in closed form\<close>

lemma create_question_eq:
  "create_question tr now a qd cu =
     (let r = QuestionDB_create_question now (db a)
                (case cu of Some c \<Rightarrow> claims_user_id c | None \<Rightarrow> None)
                (case cu of Some c \<Rightarrow> sub c | None \<Rightarrow> qc_username qd)
                (qc_message qd) (qc_category qd)
      in (Inr (fst r, select_question_by_id (snd r) (fst r)),
          \<lparr>db = snd r, manager = manager a\<rparr>,
          map (attempt tr (Event ''new_question''
                 (QuestionData (select_question_by_id (snd r) (fst r)))))
              (active_connections (manager a))))"
  by (simp add: create_question_def broadcast_eq Let_def split: prod.splits)

lemma db_update_question_status:
  "db (fst (snd (update_question_status tr now a qid st))) =
     (case QuestionDB_get_question_by_id (db a) qid of
        Inr (Some q) \<Rightarrow> snd (QuestionDB_update_question_status now (db a) qid st)
      | _ \<Rightarrow> db a)"
  by (simp add: update_question_status_def broadcast_eq Let_def
      split: prod.splits option.splits sum.splits)

lemma db_create_answer:
  "db (fst (snd (create_answer tr now a ad cu))) =
     (case QuestionDB_get_question_by_id (db a) (ac_question_id ad) of
        Inr (Some q) \<Rightarrow>
          snd (AnswerDB_create_answer now (db a) (ac_question_id ad)
                 (case cu of Some c \<Rightarrow> claims_user_id c | None \<Rightarrow> None)
                 (case cu of Some c \<Rightarrow> sub c | None \<Rightarrow> ac_username ad) (ac_message ad))
      | _ \<Rightarrow> db a)"
  by (simp add: create_answer_def broadcast_eq Let_def
      split: prod.splits option.splits sum.splits)

lemma select_question_by_id_Some:
  "select_question_by_id s qid = Some q \<Longrightarrow> q \<in> set (questions s) \<and> question_id q = qid"
  by (auto simp: select_question_by_id_def find_Some_iff)



lemma get_question_by_id_Some:
  "QuestionDB_get_question_by_id s qid = Inr (Some q) \<Longrightarrow>
   q \<in> set (questions s) \<and> question_id q = qid"
  by (auto simp: QuestionDB_get_question_by_id_def dest: select_question_by_id_Some
      split: if_splits)

section \<open>Answers to unknown questions, unknown statuses\<close>




text \<open>
  An answer to a question that is there reaches every observer, so the empty
  trace above is the refusal's doing.
\<close>

lemma create_answer_known_question_sends:
  "snd (snd (create_answer all_ok 5 watched_app (reply 1 ''hello'') None)) \<noteq> []"
  by code_simp

text \<open>The same for the whole request, whose body has passed the check of its length.\<close>

lemma post_answer_unknown_question:
  assumes "AnswerCreate_valid body"
    and "select_question_by_id (db a) (ac_question_id body) = None"
  shows "post_answer tr now a body current_user =
           (Inl (if sqlite_integer (ac_question_id body) then NotFoundError
                 else InternalServerError), a, [])"
  using assms by (simp add: post_answer_def create_answer_def QuestionDB_get_question_by_id_def)

text \<open>
  C7. A status update whose status is none of the three recognised strings is
  refused with the validation error before the handler runs: the state of the
  service, and with it the status and the answered timestamp of every question,
  is what it was, and nothing is sent.
\<close>

theorem patch_question_unrecognized_status:
  assumes "raw_status \<noteq> ''Pending''" and "raw_status \<noteq> ''Escalated''" and "raw_status \<noteq> ''Answered''"
  shows "patch_question tr now a qid raw_status = (Inl ValidationError, a, [])"
  using assms by (simp add: patch_question_def QuestionUpdate_def)

theorem patch_question_unrecognized_status_witness:
  "''Closed'' \<noteq> ''Pending'' \<and> ''Closed'' \<noteq> ''Escalated'' \<and> ''Closed'' \<noteq> ''Answered'' \<and>
   patch_question all_ok 4 triage_app 1 ''Closed'' = (Inl ValidationError, triage_app, [])"
  using patch_question_unrecognized_status [of "''Closed''" all_ok 4 triage_app 1] by simp

section \<open>The answered timestamp\<close>

lemma answered_inv_init: "answered_inv init_db"
  by (simp add: answered_inv_def init_db_def)

lemma answered_inv_create:
  "answered_inv s \<Longrightarrow> answered_inv (snd (QuestionDB_create_question now s uid un msg cat))"
  by (auto simp: answered_inv_def QuestionDB_create_question_def Let_def)

lemma answered_inv_update:
  "answered_inv s \<Longrightarrow> answered_inv (snd (QuestionDB_update_question_status now s qid st))"
  by (auto simp: answered_inv_def QuestionDB_update_question_status_def Let_def)

lemma answered_inv_answer:
  "answered_inv s \<Longrightarrow> answered_inv (snd (AnswerDB_create_answer now s qid uid un msg))"
  by (auto simp: answered_inv_def AnswerDB_create_answer_def Let_def)

lemma answered_inv_handle:
  "answered_inv (db a) \<Longrightarrow> answered_inv (db (handle tr a r))"
proof (cases r)
  case (PostQuestion now body cu)
  then show "answered_inv (db a) \<Longrightarrow> ?thesis"
    by (simp add: post_question_def create_question_eq Let_def answered_inv_create)
next
  case (PatchQuestion now qid st)
  then show "answered_inv (db a) \<Longrightarrow> ?thesis"
    by (simp add: patch_question_def db_update_question_status answered_inv_update
        split: sum.splits option.splits)
next
  case (PostAnswer now body cu)
  then show "answered_inv (db a) \<Longrightarrow> ?thesis"
    by (simp add: post_answer_def db_create_answer answered_inv_answer split: option.splits sum.splits)
qed

lemma answered_inv_run:
  "answered_inv (db a) \<Longrightarrow> answered_inv (db (run_requests tr a rs))"
  by (induction rs arbitrary: a) (simp_all add: answered_inv_handle)

lemma questions_update_question_status:
  "questions (snd (QuestionDB_update_question_status now s qid st)) =
     map (\<lambda>q. if question_id q = qid
               then q\<lparr>status := st, answered_at := (if st = ''Answered'' then Some now else None)\<rparr>
               else q) (questions s)"
  by (simp add: QuestionDB_update_question_status_def Let_def)

lemma update_question_status_row:
  assumes "q \<in> set (questions (snd (QuestionDB_update_question_status now s qid st)))"
    and "question_id q = qid"
  shows "status q = st \<and> answered_at q = (if st = ''Answered'' then Some now else None)"
proof -
  from assms(1) obtain q0 where
    q: "q = (if question_id q0 = qid
             then q0\<lparr>status := st, answered_at := (if st = ''Answered'' then Some now else None)\<rparr>
             else q0)"
    unfolding questions_update_question_status set_map by (rule imageE)
  show ?thesis
  proof (cases "question_id q0 = qid")
    case True
    with q show ?thesis by simp
  next
    case False
    with q assms(2) show ?thesis by simp
  qed
qed

lemma create_question_appends:
  "\<exists>q. questions (snd (QuestionDB_create_question now s uid un msg cat)) = questions s @ [q] \<and>
        status q = ''Pending'' \<and> answered_at q = None"
  by (simp add: QuestionDB_create_question_def Let_def)

text \<open>
  C3. The answered timestamp of every question is set exactly when its status is
  Answered: this holds in the empty database, and every run of requests (new
  questions, status updates, new answers) keeps it, as does every single write of
  \<^verbatim>\<open>QuestionDB\<close>, whatever string the status is. A new question is appended with
  the status Pending and no answered timestamp; an update to Answered sets the
  timestamp of the question to the time of the update, and an update to Pending
  or to Escalated clears it.
\<close>

theorem answered_at_iff_Answered:
  "answered_inv init_db \<and>
   (answered_inv (db a) \<longrightarrow> answered_inv (db (run_requests tr a rs))) \<and>
   (answered_inv s \<longrightarrow>
      answered_inv (snd (QuestionDB_create_question now s uid un msg cat)) \<and>
      answered_inv (snd (QuestionDB_update_question_status now s qid st))) \<and>
   (\<exists>q. questions (snd (QuestionDB_create_question now s uid un msg cat)) = questions s @ [q] \<and>
        status q = ''Pending'' \<and> answered_at q = None) \<and>
   (\<forall>q \<in> set (questions (snd (QuestionDB_update_question_status now s qid ''Answered''))).
      question_id q = qid \<longrightarrow> status q = ''Answered'' \<and> answered_at q = Some now) \<and>
   (\<forall>q \<in> set (questions (snd (QuestionDB_update_question_status now s qid ''Pending''))).
      question_id q = qid \<longrightarrow> status q = ''Pending'' \<and> answered_at q = None) \<and>
   (\<forall>q \<in> set (questions (snd (QuestionDB_update_question_status now s qid ''Escalated''))).
      question_id q = qid \<longrightarrow> status q = ''Escalated'' \<and> answered_at q = None)"
proof (intro conjI ballI impI)
  show "answered_inv init_db" by (rule answered_inv_init)
next
  assume "answered_inv (db a)"
  then show "answered_inv (db (run_requests tr a rs))" by (rule answered_inv_run)
next
  assume "answered_inv s"
  then show "answered_inv (snd (QuestionDB_create_question now s uid un msg cat))"
    by (rule answered_inv_create)
next
  assume "answered_inv s"
  then show "answered_inv (snd (QuestionDB_update_question_status now s qid st))"
    by (rule answered_inv_update)
next
  show "\<exists>q. questions (snd (QuestionDB_create_question now s uid un msg cat)) = questions s @ [q] \<and>
        status q = ''Pending'' \<and> answered_at q = None"
    by (rule create_question_appends)
next
  fix q assume "q \<in> set (questions (snd (QuestionDB_update_question_status now s qid ''Answered'')))"
    and "question_id q = qid"
  from update_question_status_row [OF this]
  show "status q = ''Answered''" and "answered_at q = Some now" by simp_all
next
  fix q assume "q \<in> set (questions (snd (QuestionDB_update_question_status now s qid ''Pending'')))"
    and "question_id q = qid"
  from update_question_status_row [OF this]
  show "status q = ''Pending''" and "answered_at q = None" by simp_all
next
  fix q assume "q \<in> set (questions (snd (QuestionDB_update_question_status now s qid ''Escalated'')))"
    and "question_id q = qid"
  from update_question_status_row [OF this]
  show "status q = ''Escalated''" and "answered_at q = None" by simp_all
qed

theorem answered_at_iff_Answered_witness:
  "answered_inv (db fresh_app) \<and>
   answered_inv (db (run_requests all_ok fresh_app lifecycle)) \<and>
   map (\<lambda>q. (question_id q, status q, answered_at q))
     (questions (db (run_requests all_ok fresh_app lifecycle))) = [(1, ''Answered'', Some 2)] \<and>
   status (hd (questions (snd (QuestionDB_update_question_status 2 one_question 1 ''Answered''))))
     = ''Answered'' \<and>
   answered_at (hd (questions (snd (QuestionDB_update_question_status 2 one_question 1 ''Answered''))))
     = Some 2 \<and>
   answered_at (hd (questions (snd (QuestionDB_update_question_status 3 one_question 1 ''Escalated''))))
     = None"
proof -
  note inst = answered_at_iff_Answered
    [of fresh_app all_ok lifecycle one_question 2 None "''Guest''" "''first''" "''General''" 1 "''Answered''"]
  note inst' = answered_at_iff_Answered
    [of fresh_app all_ok lifecycle one_question 3 None "''Guest''" "''first''" "''General''" 1 "''Answered''"]
  have h: "answered_inv (db fresh_app)"
    using inst by (simp add: fresh_app_def)
  have r: "answered_inv (db (run_requests all_ok fresh_app lifecycle))"
    using inst h by blast
  have e: "map (\<lambda>q. (question_id q, status q, answered_at q))
     (questions (db (run_requests all_ok fresh_app lifecycle))) = [(1, ''Answered'', Some 2)]"
    by code_simp
  have m2: "hd (questions (snd (QuestionDB_update_question_status 2 one_question 1 ''Answered'')))
      \<in> set (questions (snd (QuestionDB_update_question_status 2 one_question 1 ''Answered'')))"
    and i2: "question_id (hd (questions (snd (QuestionDB_update_question_status 2 one_question 1 ''Answered'')))) = 1"
    and m3: "hd (questions (snd (QuestionDB_update_question_status 3 one_question 1 ''Escalated'')))
      \<in> set (questions (snd (QuestionDB_update_question_status 3 one_question 1 ''Escalated'')))"
    and i3: "question_id (hd (questions (snd (QuestionDB_update_question_status 3 one_question 1 ''Escalated'')))) = 1"
    by (simp_all add: questions_update_question_status one_question_def
        QuestionDB_create_question_def init_db_def Let_def)
  have u2: "status (hd (questions (snd (QuestionDB_update_question_status 2 one_question 1 ''Answered''))))
     = ''Answered'' \<and>
     answered_at (hd (questions (snd (QuestionDB_update_question_status 2 one_question 1 ''Answered''))))
     = Some 2"
    using inst m2 i2 by blast
  have u3: "answered_at (hd (questions (snd (QuestionDB_update_question_status 3 one_question 1 ''Escalated''))))
     = None"
    using inst' m3 i3 by blast
  show ?thesis using h r e u2 u3 by blast
qed

section \<open>A new question in the list\<close>

lemma store_ok_init: "store_ok init_db"
  by (simp add: store_ok_def init_db_def)

lemma store_ok_create:
  "store_ok s \<Longrightarrow> store_ok (snd (QuestionDB_create_question now s uid un msg cat))"
  by (auto simp: store_ok_def QuestionDB_create_question_def Let_def le_Suc_eq)

lemma store_ok_update:
  "store_ok s \<Longrightarrow> store_ok (snd (QuestionDB_update_question_status now s qid st))"
  by (auto simp: store_ok_def QuestionDB_update_question_status_def Let_def)

lemma store_ok_answer:
  "store_ok s \<Longrightarrow> QuestionDB_get_question_by_id s qid = Inr (Some q) \<Longrightarrow>
   store_ok (snd (AnswerDB_create_answer now s qid uid un msg))"
  by (auto simp: store_ok_def AnswerDB_create_answer_def Let_def dest: get_question_by_id_Some)

lemma store_ok_handle:
  "store_ok (db a) \<Longrightarrow> store_ok (db (handle tr a r))"
proof (cases r)
  case (PostQuestion now body cu)
  then show "store_ok (db a) \<Longrightarrow> ?thesis"
    by (simp add: post_question_def create_question_eq Let_def store_ok_create)
next
  case (PatchQuestion now qid st)
  then show "store_ok (db a) \<Longrightarrow> ?thesis"
    by (simp add: patch_question_def db_update_question_status store_ok_update
        split: sum.splits option.splits)
next
  case (PostAnswer now body cu)
  then show "store_ok (db a) \<Longrightarrow> ?thesis"
    by (simp add: post_answer_def db_create_answer store_ok_answer split: option.splits sum.splits)
qed

lemma store_ok_run:
  "store_ok (db a) \<Longrightarrow> store_ok (db (run_requests tr a rs))"
  by (induction rs arbitrary: a) (simp_all add: store_ok_handle)

text \<open>Every state that requests lead to from the empty database is of this kind.\<close>

lemma store_ok_reachable: "store_ok (db (run_requests tr \<lparr>db = init_db, manager = m\<rparr> rs))"
  by (rule store_ok_run) (simp add: store_ok_init)

lemma find_snoc:
  "find P (xs @ [x]) = (case find P xs of None \<Rightarrow> (if P x then Some x else None) | Some y \<Rightarrow> Some y)"
  by (induction xs) simp_all

lemma get_question_by_id_created:
  assumes "store_ok s"
  shows "select_question_by_id (snd (QuestionDB_create_question now s uid un msg cat))
           (fst (QuestionDB_create_question now s uid un msg cat)) =
         Some \<lparr>question_id = Suc (question_seq s), user_id = uid, username = un, message = msg,
               status = ''Pending'', category = cat, timestamp = now, answered_at = None\<rparr>"
proof -
  have "\<forall>q \<in> set (questions s). question_id q \<noteq> Suc (question_seq s)"
    using assms by (fastforce simp: store_ok_def)
  then have "find (\<lambda>q. question_id q = Suc (question_seq s)) (questions s) = None"
    by (simp add: find_None_iff)
  then show ?thesis
    by (simp add: select_question_by_id_def QuestionDB_create_question_def Let_def find_snoc)
qed

lemma count_answers_created:
  assumes "store_ok s"
  shows "count_answers (snd (QuestionDB_create_question now s uid un msg cat)) (Suc (question_seq s)) = 0"
proof -
  have "\<forall>x \<in> set (answers s). answer_question_id x \<noteq> Suc (question_seq s)"
    using assms by (fastforce simp: store_ok_def)
  then show ?thesis
    by (simp add: count_answers_def QuestionDB_create_question_def Let_def filter_empty_conv)
qed

lemma get_questions_all_mem:
  assumes "q \<in> set (questions (db a))"
  shows "(q, count_answers (db a) (question_id q)) \<in> set (get_questions a None)"
proof -
  have "(q, Some (count_answers (db a) (question_id q))) \<in> set (QuestionDB_get_all_questions (db a))"
    using assms by (simp add: QuestionDB_get_all_questions_def image_iff)
  then have "Question (q, Some (count_answers (db a) (question_id q))) \<in> set (get_questions a None)"
    by (simp add: get_questions_def)
  then show ?thesis by (simp add: Question_def)
qed

lemma get_questions_category_mem:
  assumes "q \<in> set (questions (db a))" and "count_answers (db a) (question_id q) = 0"
  shows "(q, 0) \<in> set (get_questions a (Some (category q)))"
proof (cases "category q \<noteq> [] \<and> category q \<noteq> ''All''")
  case True
  have "(q, None) \<in> set (QuestionDB_get_questions_by_category (db a) (category q))"
    using assms(1) by (simp add: QuestionDB_get_questions_by_category_def image_iff)
  then have "Question (q, None) \<in> set (get_questions a (Some (category q)))"
    using True by (simp add: get_questions_def)
  then show ?thesis by (simp add: Question_def)
next
  case False
  have "(q, Some (count_answers (db a) (question_id q))) \<in> set (QuestionDB_get_all_questions (db a))"
    using assms(1) by (simp add: QuestionDB_get_all_questions_def image_iff)
  then have "Question (q, Some 0) \<in> set (get_questions a (Some (category q)))"
    using False assms(2) by (auto simp: get_questions_def)
  then show ?thesis by (simp add: Question_def)
qed

text \<open>
  C8. In a state where no row names a question id that is still to be handed out
  (every state reached by requests is one), a submission that passes the check of
  \<^verbatim>\<open>QuestionCreate\<close> succeeds and returns the stored question, whose status is
  Pending and whose answered timestamp is null; the list of all questions read
  right after, and the list of its category, both hold this question with the
  answer count 0.
\<close>

theorem post_question_listed:
  assumes "store_ok (db a)" and "QuestionCreate_valid body"
  shows "\<exists>qid q. fst (post_question tr now a body cu) = Inr (qid, Some q) \<and>
           question_id q = qid \<and> message q = qc_message body \<and>
           status q = ''Pending'' \<and> answered_at q = None \<and>
           (\<exists>r \<in> set (get_questions (fst (snd (post_question tr now a body cu))) None).
              fst r = q \<and> answer_count r = 0) \<and>
           (\<exists>r \<in> set (get_questions (fst (snd (post_question tr now a body cu)))
                         (Some (qc_category body))).
              fst r = q \<and> answer_count r = 0)"
proof -
  define uid where "uid = (case cu of Some c \<Rightarrow> claims_user_id c | None \<Rightarrow> None)"
  define un where "un = (case cu of Some c \<Rightarrow> sub c | None \<Rightarrow> qc_username body)"
  define r where "r = QuestionDB_create_question now (db a) uid un (qc_message body) (qc_category body)"
  define q where "q = \<lparr>question_id = Suc (question_seq (db a)), user_id = uid, username = un,
     message = qc_message body, status = ''Pending'', category = qc_category body,
     timestamp = now, answered_at = None\<rparr>"
  define a' where "a' = \<lparr>db = snd r, manager = manager a\<rparr>"
  have res: "fst (post_question tr now a body cu) = Inr (fst r, select_question_by_id (snd r) (fst r))"
    and st: "fst (snd (post_question tr now a body cu)) = a'"
    using assms(2) by (simp_all add: post_question_def create_question_eq Let_def r_def uid_def un_def a'_def)
  have got: "select_question_by_id (snd r) (fst r) = Some q"
    unfolding r_def q_def by (rule get_question_by_id_created [OF assms(1)])
  have qid: "fst r = Suc (question_seq (db a))"
    by (simp add: r_def QuestionDB_create_question_def Let_def)
  have mem: "q \<in> set (questions (db a'))"
    using got by (simp add: a'_def select_question_by_id_Some)
  have cnt: "count_answers (db a') (question_id q) = 0"
    using count_answers_created [OF assms(1), of now uid un "qc_message body" "qc_category body"]
    by (simp add: a'_def r_def q_def)
  have l1: "(q, 0) \<in> set (get_questions a' None)"
    using get_questions_all_mem [OF mem] cnt by simp
  have l2: "(q, 0) \<in> set (get_questions a' (Some (qc_category body)))"
    using get_questions_category_mem [OF mem cnt] by (simp add: q_def)
  have f: "question_id q = fst r" "message q = qc_message body" "status q = ''Pending''"
    "answered_at q = None"
    by (simp_all add: q_def qid)
  have e1: "\<exists>r \<in> set (get_questions a' None). fst r = q \<and> answer_count r = 0"
    using l1 by (intro bexI [of _ "(q, 0)"]) (simp_all add: answer_count_def)
  have e2: "\<exists>r \<in> set (get_questions a' (Some (qc_category body))). fst r = q \<and> answer_count r = 0"
    using l2 by (intro bexI [of _ "(q, 0)"]) (simp_all add: answer_count_def)
  show ?thesis
    unfolding res st got using f e1 e2 by blast
qed

theorem post_question_listed_witness:
  "store_ok (db fresh_app) \<and> QuestionCreate_valid (ask ''first'') \<and>
   (\<exists>qid q. fst (post_question all_ok 1 fresh_app (ask ''first'') None) = Inr (qid, Some q) \<and>
      question_id q = qid \<and> message q = qc_message (ask ''first'') \<and>
      status q = ''Pending'' \<and> answered_at q = None \<and>
      (\<exists>r \<in> set (get_questions (fst (snd (post_question all_ok 1 fresh_app (ask ''first'') None))) None).
         fst r = q \<and> answer_count r = 0) \<and>
      (\<exists>r \<in> set (get_questions (fst (snd (post_question all_ok 1 fresh_app (ask ''first'') None)))
                    (Some (qc_category (ask ''first'')))).
         fst r = q \<and> answer_count r = 0))"
proof -
  have h1: "store_ok (db fresh_app)"
    by (simp add: store_ok_def fresh_app_def init_db_def)
  have h2: "QuestionCreate_valid (ask ''first'')"
    by (simp add: QuestionCreate_valid_def ask_def)
  show ?thesis
    using h1 h2 post_question_listed [OF h1 h2, of all_ok 1 None] by blast
qed

section \<open>The suggestion service\<close>

lemma round2_unit: "0 \<le> x \<Longrightarrow> x \<le> 1 \<Longrightarrow> 0 \<le> round2 x \<and> round2 x \<le> 1"
proof -
  assume a: "0 \<le> x" "x \<le> 1"
  have "round (0::real) \<le> round (x * 100)" using a by (intro round_mono) simp
  moreover have "round (x * 100) \<le> round (100::real)" using a by (intro round_mono) simp
  ultimately have "0 \<le> round (x * 100) \<and> round (x * 100) \<le> 100" by simp
  then show ?thesis by (simp add: round2_def)
qed

lemma uniform_unit: "0 \<le> u \<Longrightarrow> u < 1 \<Longrightarrow> 0 \<le> uniform 0.65 0.85 u \<and> uniform 0.65 0.85 u \<le> 1"
  by (simp add: uniform_def)

lemma mock_confidence:
  "0 \<le> u \<Longrightarrow> u < 1 \<Longrightarrow>
   0 \<le> confidence (get_mock_answer u question) \<and> confidence (get_mock_answer u question) \<le> 1"
proof -
  assume a: "0 \<le> u" "u < 1"
  from uniform_unit [OF a] have "0 \<le> uniform 0.65 0.85 u" and "uniform 0.65 0.85 u \<le> 1"
    by simp_all
  from round2_unit [OF this]
  have "0 \<le> round2 (uniform 0.65 0.85 u) \<and> round2 (uniform 0.65 0.85 u) \<le> 1" .
  then show ?thesis
    by (simp add: get_mock_answer_def Let_def split: option.splits prod.splits)
qed

text \<open>
  C9. When the chain raises, and also when there is no chain, the service returns
  the mock answer; it returns an answer in every case, and the confidence of that
  answer lies between 0 and 1, for every value in \<open>[0, 1)\<close> that the random
  generator can draw.
\<close>

theorem suggestion_falls_back:
  assumes "0 \<le> u" and "u < 1"
  shows "(llm svc = Some ch \<and> ch question = ChainRaises \<longrightarrow>
            get_suggested_answer svc u question = get_mock_answer u question) \<and>
         (llm svc = None \<longrightarrow> get_suggested_answer svc u question = get_mock_answer u question) \<and>
         0 \<le> confidence (get_suggested_answer svc u question) \<and>
         confidence (get_suggested_answer svc u question) \<le> 1"
  using mock_confidence [OF assms, of question]
  by (simp add: get_suggested_answer_def get_real_answer_def split: option.splits chain_outcome.splits)

theorem suggestion_falls_back_witness:
  "(0::real) \<le> 1 / 2 \<and> (1::real) / 2 < 1 \<and>
   get_suggested_answer \<lparr>llm = Some failing_chain\<rparr> (1 / 2) ''How do I log in?'' =
     get_mock_answer (1 / 2) ''How do I log in?'' \<and>
   0 \<le> confidence (get_suggested_answer \<lparr>llm = Some failing_chain\<rparr> (1 / 2) ''How do I log in?'') \<and>
   confidence (get_suggested_answer \<lparr>llm = Some failing_chain\<rparr> (1 / 2) ''How do I log in?'') \<le> 1"
proof -
  have h1: "(0::real) \<le> 1 / 2" and h2: "(1::real) / 2 < 1" by simp_all
  show ?thesis
  proof -
    have c: "llm \<lparr>llm = Some failing_chain\<rparr> = Some failing_chain \<and>
        failing_chain ''How do I log in?'' = ChainRaises"
      by (simp add: failing_chain_def)
    from suggestion_falls_back [OF h1 h2, of "\<lparr>llm = Some failing_chain\<rparr>" failing_chain
        "''How do I log in?''"] c h1 h2
    show ?thesis by blast
  qed
qed

section \<open>The order and the answer counts of the list\<close>

text \<open>
  Without a category the list is in the triage order, and every answer count is
  the number of answers that the answers of the question would list.
\<close>

lemma get_all_questions_sorted:
  "sorted (map triage_key (QuestionDB_get_all_questions s))"
  by (simp add: QuestionDB_get_all_questions_def)

lemma get_questions_unfiltered_order:
  assumes "i < j" and "j < length (get_questions a None)"
  shows "(status (fst (get_questions a None ! j)) = ''Escalated'' \<longrightarrow>
            status (fst (get_questions a None ! i)) = ''Escalated'') \<and>
         ((status (fst (get_questions a None ! i)) = ''Escalated'') =
            (status (fst (get_questions a None ! j)) = ''Escalated'') \<longrightarrow>
          timestamp (fst (get_questions a None ! j)) \<le> timestamp (fst (get_questions a None ! i)))"
proof -
  let ?rows = "QuestionDB_get_all_questions (db a)"
  have len: "j < length ?rows" using assms(2) by (simp add: get_questions_def)
  have nth: "\<And>k. k < length ?rows \<Longrightarrow> fst (get_questions a None ! k) = fst (?rows ! k)"
    by (simp add: get_questions_def Question_def)
  have "triage_key (?rows ! i) \<le> triage_key (?rows ! j)"
    using sorted_nth_mono [OF get_all_questions_sorted, of i j "db a"] assms(1) len by simp
  then show ?thesis
    using nth [of i] nth [of j] assms(1) len
    by (auto simp: triage_key_def status_rank_def less_eq_prod_def split: if_splits)
qed

lemma get_questions_unfiltered_count:
  assumes "r \<in> set (get_questions a None)"
  shows "answer_count r = length (AnswerDB_get_answers_by_question (db a) (question_id (fst r)))"
  using assms
  by (auto simp: get_questions_def QuestionDB_get_all_questions_def Question_def answer_count_def
      count_answers_def AnswerDB_get_answers_by_question_def)

text \<open>
  C1. With a category the list is ordered by time alone: in the sample state the
  newer pending question comes before the older escalated one, while the list
  without a category has the escalated one first.
\<close>

theorem category_listing_ignores_escalation:
  "map (\<lambda>r. (question_id (fst r), status (fst r), timestamp (fst r)))
     (get_questions triage_app (Some ''General'')) = [(2, ''Pending'', 2), (1, ''Escalated'', 1)] \<and>
   map (\<lambda>r. (question_id (fst r), status (fst r), timestamp (fst r)))
     (get_questions triage_app None) = [(1, ''Escalated'', 1), (2, ''Pending'', 2)]"
  by code_simp

text \<open>
  C2. With a category the rows carry no answer count and the response model fills
  in 0: in the sample state the question has one answer, which the answers of the
  question list and the list without a category counts, and the list of its
  category shows 0.
\<close>

theorem category_listing_answer_count_default:
  "map (\<lambda>r. (question_id (fst r), answer_count r))
     (get_questions answered_app (Some ''General'')) = [(1, 0)] \<and>
   map_sum id length (get_answers answered_app 1) = Inr 1 \<and>
   map (\<lambda>r. (question_id (fst r), answer_count r)) (get_questions answered_app None) = [(1, 1)]"
  by code_simp

end
